theory Spec2Isabelle
  imports Complex_Main "HOL-Library.AList"
begin

section \<open>Px: embedding of \<^verbatim>\<open>px/main.py\<close>\<close>

text \<open>
  The theory follows \<^verbatim>\<open>src/px/main.py\<close>. The modules \<^verbatim>\<open>mcurl\<close>,
  \<^verbatim>\<open>wproxy\<close>, \<^verbatim>\<open>keyring\<close>, \<^verbatim>\<open>netaddr\<close> and Python's standard
  library are not part of that file. What they return is taken from an environment
  record (one field per call the source makes), and what the source asks of them is
  written to a trace of events. Calls to \<^verbatim>\<open>dprint\<close> only write the debug log and
  are left out.
\<close>

subsection \<open>Python values and errors\<close>

datatype py_error =
    GaiError          \<comment> \<open>\<^verbatim>\<open>socket.gaierror\<close> from \<^verbatim>\<open>socket.getaddrinfo\<close>\<close>
  | IndexError        \<comment> \<open>\<^verbatim>\<open>xs[0]\<close> on an empty list\<close>
  | AttributeError    \<comment> \<open>an attribute of \<^verbatim>\<open>None\<close>\<close>
  | TypeError         \<comment> \<open>an operator applied to a value of the wrong type\<close>
  | ValueError        \<comment> \<open>raised by a call that validates its argument\<close>
  | SocketError       \<comment> \<open>\<^verbatim>\<open>socket.error\<close> (\<^verbatim>\<open>OSError\<close>) raised by socket I/O\<close>
  | SystemExit        \<comment> \<open>\<^verbatim>\<open>sys.exit()\<close>\<close>
  | NoOptionError     \<comment> \<open>\<^verbatim>\<open>configparser.NoOptionError\<close>\<close>

text \<open>
  \<^verbatim>\<open>socket.error\<close> is \<^verbatim>\<open>OSError\<close>; \<^verbatim>\<open>socket.gaierror\<close> is one of its subclasses.
\<close>

definition is_socket_error :: "py_error \<Rightarrow> bool" where
  "is_socket_error e = (e = SocketError \<or> e = GaiError)"

text \<open>
  The values a setting can hold after \<^verbatim>\<open>int(val)\<close> or \<^verbatim>\<open>float(val)\<close> was tried on
  it: the number when the conversion succeeded, the string itself when it raised.
  Floats and the readings of \<^verbatim>\<open>time.time()\<close> are idealised as reals.
\<close>

datatype pyval = PInt int | PFloat real | PStr string

text \<open>\<^verbatim>\<open>s.startswith(p)\<close> and \<^verbatim>\<open>p in s\<close> on strings.\<close>

fun startswith :: "string \<Rightarrow> string \<Rightarrow> bool" where
  "startswith s [] = True"
| "startswith [] (p # ps) = False"
| "startswith (c # s) (p # ps) = (c = p \<and> startswith s ps)"

fun contains :: "string \<Rightarrow> string \<Rightarrow> bool" where
  "contains [] p = (p = [])"
| "contains (c # s) p = (startswith (c # s) p \<or> contains s p)"

text \<open>\<^verbatim>\<open>sep.join(xs)\<close>.\<close>

fun join :: "string \<Rightarrow> string list \<Rightarrow> string" where
  "join sep [] = []"
| "join sep [x] = x"
| "join sep (x # y # ys) = x @ sep @ join sep (y # ys)"

subsection \<open>The class \<^verbatim>\<open>State\<close>\<close>

text \<open>
  An entry of an upstream list is \<^verbatim>\<open>wproxy.DIRECT\<close> or a pair of host and port. A
  \<^verbatim>\<open>Wproxy\<close> object is known by its \<^verbatim>\<open>mode\<close>, its \<^verbatim>\<open>noproxy_hosts\<close> and what
  \<^verbatim>\<open>find_proxy_for_url\<close> answers; of the modes only \<^verbatim>\<open>MODE_CONFIG\<close> and
  \<^verbatim>\<open>MODE_CONFIG_PAC\<close> are named in \<^verbatim>\<open>main.py\<close>.
\<close>

datatype upstream = DIRECT | Server string int

datatype wmode = MODE_CONFIG | MODE_CONFIG_PAC | MODE_DISCOVERED nat

record wproxy =
  mode :: wmode
  noproxy_hosts :: "string list"
  find_proxy_for_url :: "string \<Rightarrow> upstream list \<times> string \<times> string"

datatype log_target = Log_stdout | Log_file string

text \<open>
  The class attributes of \<^verbatim>\<open>State\<close>, in the order of the source. \<^verbatim>\<open>config\<close> is the
  \<^verbatim>\<open>ConfigParser\<close> as a map from section and option to the stored string. \<^verbatim>\<open>allow\<close>
  is a \<^verbatim>\<open>netaddr\<close> set of addresses, of which only membership is used. The
  attributes \<^verbatim>\<open>mcurl\<close> and \<^verbatim>\<open>stdout\<close> hold no data the claims read; \<^verbatim>\<open>state_lock\<close>
  is modelled by running the locked region as one step. \<^verbatim>\<open>printed\<close> is not an
  attribute: it collects the lines \<^verbatim>\<open>pprint\<close> has written to the console.
\<close>

record State =
  hostonly :: bool
  ini :: string
  idle :: pyval
  listen :: "string list"
  noproxy :: string
  pac :: string
  proxyreload :: pyval
  socktimeout :: pyval
  useragent :: string
  auth :: string
  username :: string
  allow :: "string set"
  config :: "string \<times> string \<rightharpoonup> string"
  debug :: "log_target option"
  location :: int
  wproxy :: "wproxy option"
  proxy_last_reload :: "real option"
  printed :: "string list"

text \<open>The values the class body assigns (\<^verbatim>\<open>IPGlob("*.*.*.*")\<close> holds every address).\<close>

definition State_init :: State where
  "State_init =
     \<lparr>hostonly = False, ini = [], idle = PInt 30, listen = [], noproxy = [], pac = [],
      proxyreload = PInt 60, socktimeout = PFloat 20, useragent = [], auth = ''ANY'',
      username = [], allow = UNIV, config = Map.empty, debug = None, location = 0,
      wproxy = None, proxy_last_reload = None, printed = []\<rparr>"

subsection \<open>Admission: \<^verbatim>\<open>get_host_ips\<close> and \<^verbatim>\<open>PoolMixIn.verify_request\<close>\<close>

text \<open>
  \<^verbatim>\<open>host_env\<close> is what the operating system answers at the moment of a call:
  \<^verbatim>\<open>getaddrinfo\<close> is the list \<^verbatim>\<open>[ip[4][0] for ip in socket.getaddrinfo(
  socket.gethostname(), 80, socket.AF_INET)]\<close>, or the error the call raises.
\<close>

record host_env =
  getaddrinfo :: "py_error + string list"

definition get_host_ips :: "host_env \<Rightarrow> py_error + string list" where
  "get_host_ips env =
     (case getaddrinfo env of
        Inl e \<Rightarrow> Inl e
      | Inr localips \<Rightarrow> Inr (''127.0.0.1'' # localips))"

definition verify_request :: "State \<Rightarrow> host_env \<Rightarrow> string \<Rightarrow> py_error + bool" where
  "verify_request S env client_address =
     (if client_address \<in> allow S then Inr True
      else if hostonly S then
        (case get_host_ips env of
           Inl e \<Rightarrow> Inl e
         | Inr ips \<Rightarrow> if client_address \<in> set ips then Inr True else Inr False)
      else Inr False)"

text \<open>
  The caller of \<^verbatim>\<open>verify_request\<close> is \<^verbatim>\<open>socketserver.BaseServer._handle_request_noblock\<close>
  of the standard library: after \<^verbatim>\<open>get_request\<close> it runs
  \<^verbatim>\<open>if self.verify_request(...): self.process_request(...) else: self.shutdown_request(request)\<close>,
  and an exception of \<^verbatim>\<open>verify_request\<close> leaves it uncaught. \<^verbatim>\<open>process_request\<close> is
  \<^verbatim>\<open>PoolMixIn.process_request\<close>, which submits the connection to the thread pool.
  The accepted socket is a record counting the bytes read from and written to it.
\<close>

record connection =
  is_open :: bool
  bytes_read :: nat
  bytes_written :: nat

datatype dispatch = Submitted | Shutdown | Propagated py_error

definition shutdown_request :: "connection \<Rightarrow> connection" where
  "shutdown_request c = c\<lparr>is_open := False\<rparr>"

definition handle_request_noblock ::
  "State \<Rightarrow> host_env \<Rightarrow> string \<Rightarrow> connection \<Rightarrow> dispatch \<times> connection" where
  "handle_request_noblock S env client_address c =
     (case verify_request S env client_address of
        Inl e \<Rightarrow> (Propagated e, c)
      | Inr ok \<Rightarrow> if ok then (Submitted, c) else (Shutdown, shutdown_request c))"

text \<open>Concrete inputs used below.\<close>

definition hostonly_state :: State where
  "hostonly_state = State_init\<lparr>allow := {}, hostonly := True\<rparr>"

definition subnet_state :: State where
  "subnet_state = State_init\<lparr>allow := {''192.168.1.7'', ''192.168.1.8''}\<rparr>"

definition env_at_startup :: host_env where
  "env_at_startup = \<lparr>getaddrinfo = Inr [''192.168.1.10'']\<rparr>"

definition env_at_request :: host_env where
  "env_at_request = \<lparr>getaddrinfo = Inr [''10.0.0.5'']\<rparr>"

definition fresh_connection :: connection where
  "fresh_connection = \<lparr>is_open = True, bytes_read = 0, bytes_written = 0\<rparr>"

subsection \<open>What a request asks of its surroundings\<close>

text \<open>
  The \<^verbatim>\<open>Curl\<close> object of \<^verbatim>\<open>mcurl\<close>, as far as \<^verbatim>\<open>main.py\<close> configures it: the URL
  and method it was created or reset with, and the upstream \<^verbatim>\<open>set_proxy\<close> installed.
\<close>

record curl =
  url :: string
  http_method :: string
  proxy :: "(string \<times> int) option"

datatype do_result =
    Do_ok                     \<comment> \<open>\<^verbatim>\<open>State.mcurl.do\<close> returned true\<close>
  | Do_failed int string      \<comment> \<open>it returned false, leaving \<^verbatim>\<open>curl.resp\<close> and \<^verbatim>\<open>curl.errstr\<close>\<close>
  | Do_raised py_error        \<comment> \<open>it raised\<close>

text \<open>
  The calls a request makes on \<^verbatim>\<open>mcurl\<close>, \<^verbatim>\<open>wproxy\<close> and the client socket, in the
  order they happen. \<^verbatim>\<open>Send_response\<close>, \<^verbatim>\<open>Send_header\<close>, \<^verbatim>\<open>End_headers\<close> and
  \<^verbatim>\<open>Send_error\<close> are the handler's calls of these methods of
  \<^verbatim>\<open>http.server.BaseHTTPRequestHandler\<close>, which render the status line and the headers
  and, in \<^verbatim>\<open>end_headers\<close>, write them with the closing blank line to the client.
  \<^verbatim>\<open>Mcurl_select\<close> is the splice of the tunnel.
\<close>

datatype event =
    Wproxy_init string
  | Curl_new string string string pyval
  | Curl_reset string string string pyval
  | Set_proxy string int "string option"
  | Send_error int string
  | Set_auth string "string option" string
  | Set_debug bool
  | Bridge
  | Set_headers "(string \<times> string) list"
  | Set_transfer_decoding bool
  | Set_useragent string
  | Mcurl_do
  | Send_response int string
  | Send_header string string
  | End_headers
  | Mcurl_select pyval
  | Mcurl_remove
  | Mcurl_stop

text \<open>
  What the surroundings answer while one request is handled: the two readings of
  \<^verbatim>\<open>time.time()\<close> in \<^verbatim>\<open>reload_proxy\<close>, the object \<^verbatim>\<open>wproxy.Wproxy(noproxy = ...)\<close>
  would build, \<^verbatim>\<open>sys.platform\<close>, \<^verbatim>\<open>os.environ\<close>, \<^verbatim>\<open>keyring.get_password("Px", key)\<close>,
  the results of \<^verbatim>\<open>curl.set_proxy\<close>, \<^verbatim>\<open>curl.is_connect\<close> and \<^verbatim>\<open>State.mcurl.do\<close>, what
  \<^verbatim>\<open>State.mcurl.select\<close> raises, whether a write to the client raises, and the string
  of \<^verbatim>\<open>version_string()\<close>.
\<close>

record request_env =
  now_check :: real
  now_done :: real
  new_wproxy :: "string \<Rightarrow> wproxy"
  platform :: string
  environ :: "string \<rightharpoonup> string"
  keyring_get_password :: "string \<Rightarrow> string option"
  set_proxy_result :: "string \<Rightarrow> int \<Rightarrow> bool"
  is_connect :: "curl \<Rightarrow> bool"
  mcurl_do :: "curl \<Rightarrow> do_result"
  mcurl_select :: "py_error option"
  wfile_broken :: bool
  version_string :: string

subsection \<open>Proxy management: \<^verbatim>\<open>reload_proxy\<close>\<close>

text \<open>\<^verbatim>\<open>x < State.proxyreload\<close> for a float \<^verbatim>\<open>x\<close>; a string on the right raises.\<close>

definition seconds_lt :: "real \<Rightarrow> pyval \<Rightarrow> py_error + bool" where
  "seconds_lt x v =
     (case v of
        PInt n \<Rightarrow> Inr (x < of_int n)
      | PFloat r \<Rightarrow> Inr (x < r)
      | PStr s \<Rightarrow> Inl TypeError)"

text \<open>
  The region of \<^verbatim>\<open>reload_proxy\<close> between \<^verbatim>\<open>state_lock.acquire()\<close> and
  \<^verbatim>\<open>state_lock.release()\<close>. The lock lets one thread at a time run it, so it is one
  step on the shared state.
\<close>

definition reload_proxy_locked :: "request_env \<Rightarrow> State \<Rightarrow> py_error + State \<times> event list" where
  "reload_proxy_locked env S =
     (case (case proxy_last_reload S of
              None \<Rightarrow> Inr False
            | Some stamp \<Rightarrow> seconds_lt (now_check env - stamp) (proxyreload S)) of
        Inl e \<Rightarrow> Inl e
      | Inr skip \<Rightarrow>
          if skip then Inr (S, [])
          else Inr (S\<lparr>wproxy := Some (new_wproxy env (noproxy S)),
                      proxy_last_reload := Some (now_done env)\<rparr>,
                    [Wproxy_init (noproxy S)]))"

definition mode_is_config :: "wproxy \<Rightarrow> bool" where
  "mode_is_config w = (mode w \<in> set [MODE_CONFIG, MODE_CONFIG_PAC])"

definition reload_proxy :: "request_env \<Rightarrow> State \<Rightarrow> py_error + State \<times> event list" where
  "reload_proxy env S =
     (case wproxy S of
        None \<Rightarrow> Inl AttributeError
      | Some w \<Rightarrow> if mode_is_config w then Inr (S, []) else reload_proxy_locked env S)"

text \<open>
  Calls of \<^verbatim>\<open>reload_proxy\<close> by many threads, in the order in which the threads
  reach the lock. A thread reads \<^verbatim>\<open>State.wproxy.mode\<close> before it takes the lock, so
  what it reads may be older than the state it then finds under the lock: a call is the
  environment it runs in and the age of the state it read the mode from (0 for the
  current one), \<^verbatim>\<open>past\<close> being the earlier states, the newest first. An exception
  ends the call of that thread only (\<^verbatim>\<open>finally\<close> releases the lock). The result is
  the final state and, for every refresh performed, the reading of \<^verbatim>\<open>time.time()\<close>
  that let it pass and the reading it stored.
\<close>

fun reload_proxy_threads ::
  "(request_env \<times> nat) list \<Rightarrow> State \<Rightarrow> State list \<Rightarrow> State \<times> (real \<times> real) list" where
  "reload_proxy_threads [] S past = (S, [])"
| "reload_proxy_threads ((env, age) # calls) S past =
     (case wproxy ((S # past) ! min age (length past)) of
        None \<Rightarrow> reload_proxy_threads calls S past
      | Some seen \<Rightarrow>
          if mode_is_config seen then reload_proxy_threads calls S past
          else
            (case reload_proxy_locked env S of
               Inl e \<Rightarrow> reload_proxy_threads calls S past
             | Inr (S', tr) \<Rightarrow>
                 (case reload_proxy_threads calls S' (S # past) of
                    (S'', refreshes) \<Rightarrow>
                      (S'', (if tr = [] then [] else [(now_check env, now_done env)]) @ refreshes))))"

text \<open>
  Successive refreshes are spaced: each passes the check at a reading that is at least
  \<^verbatim>\<open>n\<close> seconds after the reading the refresh before it stored.
\<close>

fun spaced :: "real \<Rightarrow> real option \<Rightarrow> (real \<times> real) list \<Rightarrow> bool" where
  "spaced n prev [] = True"
| "spaced n prev ((checked, stored) # rs) =
     ((case prev of None \<Rightarrow> True | Some l \<Rightarrow> n \<le> checked - l) \<and> spaced n (Some stored) rs)"

text \<open>Concrete inputs: a discovered proxy setting whose PAC answers with two upstreams.\<close>

definition pac_wproxy :: wproxy where
  "pac_wproxy =
     \<lparr>mode = MODE_DISCOVERED 0, noproxy_hosts = [],
      find_proxy_for_url = (\<lambda>u. ([Server ''a'' 1, Server ''b'' 2, DIRECT], ''example.com:80'', ''/''))\<rparr>"

definition static_wproxy :: wproxy where
  "static_wproxy =
     \<lparr>mode = MODE_CONFIG, noproxy_hosts = [],
      find_proxy_for_url = (\<lambda>u. ([Server ''up.corp'' 8080], ''example.com:80'', ''/''))\<rparr>"

definition linux_env :: request_env where
  "linux_env =
     \<lparr>now_check = 0, now_done = 0, new_wproxy = (\<lambda>n. pac_wproxy), platform = ''linux'',
      environ = Map.empty, keyring_get_password = (\<lambda>k. None),
      set_proxy_result = (\<lambda>s p. True), is_connect = (\<lambda>c. http_method c = ''CONNECT''),
      mcurl_do = (\<lambda>c. Do_ok), mcurl_select = None, wfile_broken = False,
      version_string = ''BaseHTTP/0.6 Python/3.11.4''\<rparr>"

definition at_time :: "real \<Rightarrow> real \<Rightarrow> request_env" where
  "at_time t t' = linux_env\<lparr>now_check := t, now_done := t'\<rparr>"

definition discovered_state :: State where
  "discovered_state = State_init\<lparr>wproxy := Some pac_wproxy, proxy_last_reload := Some 0\<rparr>"

definition four_calls :: "(request_env \<times> nat) list" where
  "four_calls = [(at_time 10 11, 0), (at_time 61 62, 1), (at_time 100 101, 0), (at_time 122 123, 2)]"

subsection \<open>Decimal strings\<close>

text \<open>\<^verbatim>\<open>str(n)\<close> and \<^verbatim>\<open>"%d" % n\<close> for an integer \<^verbatim>\<open>n\<close>.\<close>

definition digit_char :: "nat \<Rightarrow> char" where
  "digit_char d = ''0123456789'' ! d"

function str_nat :: "nat \<Rightarrow> string" where
  "str_nat n = (if n < 10 then [digit_char n] else str_nat (n div 10) @ [digit_char (n mod 10)])"
  by pat_completeness auto
termination
  by (relation "measure id") auto

declare str_nat.simps [simp del]

definition str_int :: "int \<Rightarrow> string" where
  "str_int i = (if i < 0 then CHR ''-'' # str_nat (nat (- i)) else str_nat (nat i))"

subsection \<open>The handler: class \<^verbatim>\<open>Proxy\<close>\<close>

text \<open>
  The attributes of a handler that \<^verbatim>\<open>do_curl\<close> reads or writes. \<^verbatim>\<open>path\<close>,
  \<^verbatim>\<open>command\<close>, \<^verbatim>\<open>request_version\<close>, \<^verbatim>\<open>headers\<close> and \<^verbatim>\<open>close_connection\<close> are
  set by \<^verbatim>\<open>parse_request\<close> of the base class before the method is dispatched.
\<close>

record Proxy =
  proxy_servers :: "upstream list"
  curl :: "curl option"
  path :: string
  command :: string
  request_version :: string
  headers :: "(string \<times> string) list"
  close_connection :: bool

text \<open>
  \<^verbatim>\<open>send_error\<close> of the base class answers with the header \<^verbatim>\<open>Connection: close\<close>,
  which sets \<^verbatim>\<open>close_connection\<close>; its write raises when the client is gone.
\<close>

definition send_error ::
  "request_env \<Rightarrow> int \<Rightarrow> string \<Rightarrow> Proxy \<Rightarrow> py_error option \<times> Proxy \<times> event list" where
  "send_error env code message h =
     (if wfile_broken env then Some SocketError else None,
      h\<lparr>close_connection := True\<rparr>,
      [Send_error code message])"

text \<open>The URL \<^verbatim>\<open>get_destination\<close> passes to \<^verbatim>\<open>find_proxy_for_url\<close>.\<close>

definition request_url :: "Proxy \<Rightarrow> string" where
  "request_url h = (if \<not> contains (path h) ''://'' then ''https://'' else []) @ path h"

definition get_destination ::
  "request_env \<Rightarrow> State \<Rightarrow> Proxy \<Rightarrow> (py_error + string option) \<times> Proxy \<times> State \<times> event list" where
  "get_destination env S h =
     (case reload_proxy env S of
        Inl e \<Rightarrow> (Inl e, h, S, [])
      | Inr (S', tr) \<Rightarrow>
          (case wproxy S' of
             None \<Rightarrow> (Inl AttributeError, h, S', tr)
           | Some w \<Rightarrow>
               (case find_proxy_for_url w (request_url h) of
                  (servers, netloc, pth) \<Rightarrow>
                    (case servers of
                       [] \<Rightarrow> (Inl IndexError, h, S', tr)
                     | s # _ \<Rightarrow>
                         if s = DIRECT then (Inr (Some netloc), h, S', tr)
                         else (Inr None, h\<lparr>proxy_servers := servers\<rparr>, S', tr)))))"

datatype flow = Continue | Return | Raise py_error

text \<open>
  \<^verbatim>\<open>do_curl\<close>, the branch \<^verbatim>\<open>if ipport is None\<close> (lines 216 to 247): configure the
  upstream and the credentials. \<^verbatim>\<open>Return\<close> is the \<^verbatim>\<open>return\<close> after \<^verbatim>\<open>send_error\<close>.
  The head of \<^verbatim>\<open>proxy_servers\<close> is not \<^verbatim>\<open>DIRECT\<close> here, since \<^verbatim>\<open>get_destination\<close>
  stores a list only then.
\<close>

definition configure_proxy :: "request_env \<Rightarrow> State \<Rightarrow> Proxy \<Rightarrow> flow \<times> Proxy \<times> event list" where
  "configure_proxy env S h =
     (case (curl h, proxy_servers h, wproxy S) of
        (None, _, _) \<Rightarrow> (Raise AttributeError, h, [])
      | (Some c, [], _) \<Rightarrow> (Raise IndexError, h, [])
      | (Some c, DIRECT # _, _) \<Rightarrow> (Raise TypeError, h, [])
      | (Some c, Server server port # _, None) \<Rightarrow> (Raise AttributeError, h, [])
      | (Some c, Server server port # _, Some w) \<Rightarrow>
          (let joined = join '','' (noproxy_hosts w);
               noproxy_arg = (if joined = [] then None else Some joined);
               ret = set_proxy_result env server port;
               tr = [Set_proxy server port noproxy_arg]
           in if \<not> ret then
                (case send_error env 401
                        (''Proxy server authentication failed: '' @ server @ '':'' @ str_int port) h of
                   (None, h', tr') \<Rightarrow> (Return, h', tr @ tr')
                 | (Some e, h', tr') \<Rightarrow> (Raise e, h', tr @ tr'))
              else
                (let h1 = h\<lparr>curl := Some (c\<lparr>proxy := Some (server, port)\<rparr>)\<rparr>;
                     key = (if length (username S) \<noteq> 0 then username S else []);
                     pwd = (if length (username S) \<noteq> 0
                            then (case environ env ''PX_PASSWORD'' of
                                    Some p \<Rightarrow> Some p
                                  | None \<Rightarrow> keyring_get_password env key)
                            else None)
                 in if length key = 0 then
                      (if platform env = ''win32''
                       then (Continue, h1, tr @ [Set_auth '':'' pwd (auth S)])
                       else
                         (case send_error env 501
                                 ''SSPI not available and no username configured'' h1 of
                            (None, h', tr') \<Rightarrow> (Return, h', tr @ tr')
                          | (Some e, h', tr') \<Rightarrow> (Raise e, h', tr @ tr')))
                    else (Continue, h1, tr @ [Set_auth key pwd (auth S)]))))"

text \<open>
  \<^verbatim>\<open>do_curl\<close> from \<^verbatim>\<open>self.curl.set_debug\<close> to the end (lines 251 to 278): set up the
  transfer, run it, answer the client, release the handle.
\<close>

definition transfer :: "request_env \<Rightarrow> State \<Rightarrow> Proxy \<Rightarrow> py_error option \<times> Proxy \<times> event list" where
  "transfer env S h =
     (case curl h of
        None \<Rightarrow> (Some AttributeError, h, [])
      | Some c \<Rightarrow>
          (let tr = [Set_debug (debug S \<noteq> None)]
                    @ (if \<not> is_connect env c then [Bridge] else [])
                    @ [Set_headers (headers h), Set_transfer_decoding False,
                       Set_useragent (useragent S), Mcurl_do]
           in case mcurl_do env c of
                Do_raised e \<Rightarrow> (Some e, h, tr)
              | Do_failed resp errstr \<Rightarrow>
                  (case send_error env resp errstr h of
                     (Some e, h', tr') \<Rightarrow> (Some e, h', tr @ tr')
                   | (None, h', tr') \<Rightarrow> (None, h', tr @ tr' @ [Mcurl_remove]))
              | Do_ok \<Rightarrow>
                  if is_connect env c then
                    (let tr2 = tr @ [Send_response 200 ''Connection established'',
                                     Send_header ''Proxy-Agent'' (version_string env),
                                     End_headers]
                     in if wfile_broken env then (Some SocketError, h, tr2)
                        else
                          (case mcurl_select env of
                             Some e \<Rightarrow> (Some e, h, tr2 @ [Mcurl_select (idle S)])
                           | None \<Rightarrow>
                               (None, h\<lparr>close_connection := True\<rparr>,
                                tr2 @ [Mcurl_select (idle S), Mcurl_remove])))
                  else (None, h, tr @ [Mcurl_remove])))"

text \<open>
  \<^verbatim>\<open>do_curl\<close>, lines 208 to 211: a handler without a \<^verbatim>\<open>Curl\<close> object creates one,
  another resets the one it has; either way the object starts without an upstream.
\<close>

definition acquire_curl :: "State \<Rightarrow> Proxy \<Rightarrow> Proxy \<times> event list" where
  "acquire_curl S h =
     (h\<lparr>curl := Some \<lparr>url = path h, http_method = command h, proxy = None\<rparr>\<rparr>,
      [if curl h = None
       then Curl_new (path h) (command h) (request_version h) (socktimeout S)
       else Curl_reset (path h) (command h) (request_version h) (socktimeout S)])"

definition do_curl ::
  "request_env \<Rightarrow> State \<Rightarrow> Proxy \<Rightarrow> py_error option \<times> Proxy \<times> State \<times> event list" where
  "do_curl env S h =
     (case acquire_curl S h of
        (h0, tr0) \<Rightarrow>
          (case get_destination env S h0 of
             (Inl e, h1, S1, tr1) \<Rightarrow> (Some e, h1, S1, tr0 @ tr1)
           | (Inr (Some ipport), h1, S1, tr1) \<Rightarrow>
               (case transfer env S1 h1 of
                  (r, h3, tr3) \<Rightarrow> (r, h3, S1, tr0 @ tr1 @ tr3))
           | (Inr None, h1, S1, tr1) \<Rightarrow>
               (case configure_proxy env S1 h1 of
                  (Raise e, h2, tr2) \<Rightarrow> (Some e, h2, S1, tr0 @ tr1 @ tr2)
                | (Return, h2, tr2) \<Rightarrow> (None, h2, S1, tr0 @ tr1 @ tr2)
                | (Continue, h2, tr2) \<Rightarrow>
                    (case transfer env S1 h2 of
                       (r, h3, tr3) \<Rightarrow> (r, h3, S1, tr0 @ tr1 @ tr2 @ tr3)))))"

text \<open>
  \<^verbatim>\<open>Proxy.handle_one_request\<close>, for a request whose method is one of those the class
  defines a \<^verbatim>\<open>do_\<close> method for (GET, HEAD, POST, PUT, DELETE, PATCH, CONNECT); each of
  them calls \<^verbatim>\<open>do_curl\<close>. The base class has read and parsed the request before. An \<^verbatim>\<open>OSError\<close> is caught here, any other
  exception leaves the method.
\<close>

definition handle_one_request ::
  "request_env \<Rightarrow> State \<Rightarrow> Proxy \<Rightarrow> py_error option \<times> Proxy \<times> State \<times> event list" where
  "handle_one_request env S h =
     (case do_curl env S h of
        (None, h', S', tr) \<Rightarrow> (None, h', S', tr)
      | (Some e, h', S', tr) \<Rightarrow>
          if is_socket_error e then
            (None, h'\<lparr>close_connection := True, curl := None\<rparr>, S',
             tr @ (if curl h' \<noteq> None then [Mcurl_stop] else []))
          else (Some e, h', S', tr))"

text \<open>Concrete inputs: requests, and surroundings in which the upstream misbehaves.\<close>

definition get_request :: Proxy where
  "get_request =
     \<lparr>proxy_servers = [], curl = None, path = ''http://example.com/'', command = ''GET'',
      request_version = ''HTTP/1.1'', headers = [(''Host'', ''example.com'')],
      close_connection = False\<rparr>"

definition connect_request :: Proxy where
  "connect_request =
     \<lparr>proxy_servers = [], curl = None, path = ''example.com:443'', command = ''CONNECT'',
      request_version = ''HTTP/1.1'', headers = [(''Host'', ''example.com:443'')],
      close_connection = False\<rparr>"

definition user_state :: State where
  "user_state = discovered_state\<lparr>username := ''corp-user''\<rparr>"

definition rejecting_env :: request_env where
  "rejecting_env = linux_env\<lparr>set_proxy_result := (\<lambda>s p. False)\<rparr>"

definition first_down_env :: request_env where
  "first_down_env =
     linux_env\<lparr>mcurl_do := (\<lambda>c. if proxy c = Some (''b'', 2) then Do_ok
                                 else Do_failed 503 ''Could not connect to server'')\<rparr>"

text \<open>
  A trace in which the driver was not run, no tunnel was spliced and no handle was
  removed.
\<close>

definition quiet :: "event list \<Rightarrow> bool" where
  "quiet tr = (Mcurl_do \<notin> set tr \<and> Mcurl_remove \<notin> set tr \<and> (\<forall>i. Mcurl_select i \<notin> set tr))"

subsection \<open>Python strings\<close>

text \<open>
  \<^verbatim>\<open>s.strip()\<close> removes ASCII white space at both ends; \<^verbatim>\<open>s.lower()\<close> maps the
  ASCII capitals; \<^verbatim>\<open>s.split(c)\<close> cuts at every \<^verbatim>\<open>c\<close>; \<^verbatim>\<open>name, val = s.split("=", 1)\<close>
  cuts at the first \<^verbatim>\<open>=\<close>.
\<close>

definition is_space :: "char \<Rightarrow> bool" where
  "is_space c = (c \<in> set [CHR '' '', CHR 0x09, CHR 0x0A, CHR 0x0B, CHR 0x0C, CHR 0x0D,
                           CHR 0x1C, CHR 0x1D, CHR 0x1E, CHR 0x1F])"

definition py_strip :: "string \<Rightarrow> string" where
  "py_strip s = rev (dropWhile is_space (rev (dropWhile is_space s)))"

fun index_of :: "char \<Rightarrow> string \<Rightarrow> nat option" where
  "index_of c [] = None"
| "index_of c (x # xs) = (if c = x then Some 0 else map_option Suc (index_of c xs))"



fun py_split :: "char \<Rightarrow> string \<Rightarrow> string list" where
  "py_split c [] = [[]]"
| "py_split c (x # xs) =
     (if x = c then [] # py_split c xs
      else (case py_split c xs of
              [] \<Rightarrow> [[x]]
            | y # ys \<Rightarrow> (x # y) # ys))"


text \<open>
  \<^verbatim>\<open>int(s)\<close> for a string: white space around, an optional sign, then decimal digits
  in which single underscores may separate digits. \<^verbatim>\<open>None\<close> stands for \<^verbatim>\<open>ValueError\<close>.
  (Digits outside ASCII, which Python accepts too, are left out.)
\<close>

definition digit_val :: "char \<Rightarrow> nat option" where
  "digit_val c = index_of c ''0123456789''"

fun int_digits :: "nat \<Rightarrow> string \<Rightarrow> nat option" where
  "int_digits acc [] = Some acc"
| "int_digits acc [c] = (case digit_val c of None \<Rightarrow> None | Some d \<Rightarrow> Some (10 * acc + d))"
| "int_digits acc (c # d # cs) =
     (if c = CHR ''_'' then
        (case digit_val d of None \<Rightarrow> None | Some v \<Rightarrow> int_digits (10 * acc + v) cs)
      else
        (case digit_val c of None \<Rightarrow> None | Some v \<Rightarrow> int_digits (10 * acc + v) (d # cs)))"

definition py_nat :: "string \<Rightarrow> nat option" where
  "py_nat s =
     (case s of
        [] \<Rightarrow> None
      | c # cs \<Rightarrow> (case digit_val c of None \<Rightarrow> None | Some v \<Rightarrow> int_digits v cs))"

definition py_int :: "string \<Rightarrow> int option" where
  "py_int s =
     (case py_strip s of
        [] \<Rightarrow> None
      | c # cs \<Rightarrow>
          if c = CHR ''-'' then map_option (\<lambda>n. - int n) (py_nat cs)
          else if c = CHR ''+'' then map_option int (py_nat cs)
          else map_option int (py_nat (c # cs)))"

subsection \<open>Command line and environment: \<^verbatim>\<open>parse_cli\<close>, \<^verbatim>\<open>parse_env\<close>\<close>

text \<open>
  A Python \<^verbatim>\<open>dict\<close> with string keys is a list of pairs with distinct keys, in
  insertion order: \<^verbatim>\<open>d[k] = v\<close> replaces the value of a key that is there and appends
  a new key (\<^const>\<open>AList.update\<close>), \<^verbatim>\<open>del d[k]\<close> removes the key
  (\<^const>\<open>AList.delete\<close>), \<^verbatim>\<open>d[k]\<close> is \<^const>\<open>map_of\<close>.
\<close>

type_synonym pydict = "(string \<times> string) list"







subsection \<open>Settings: the callbacks\<close>

text \<open>
  What the surroundings answer while the configuration is parsed: \<^verbatim>\<open>float(s)\<close> (or
  \<^verbatim>\<open>None\<close> for \<^verbatim>\<open>ValueError\<close>) and \<^verbatim>\<open>str(x)\<close> of a float,
  \<^verbatim>\<open>wproxy.parse_noproxy(s, iponly = True)[0]\<close>, what \<^verbatim>\<open>mcurl.getauth(s)\<close> raises,
  \<^verbatim>\<open>os.path.exists\<close>, \<^verbatim>\<open>os.path.isabs\<close>, \<^verbatim>\<open>os.path.join\<close>,
  \<^verbatim>\<open>os.path.normpath(os.path.join(get_script_dir(), p))\<close>, the \<^verbatim>\<open>netloc\<close> and the
  unquoted \<^verbatim>\<open>path\<close> of \<^verbatim>\<open>urllib.parse.urlparse(u)\<close>, \<^verbatim>\<open>sys.argv\<close>, the name of the
  process, \<^verbatim>\<open>os.getcwd()\<close>, \<^verbatim>\<open>get_script_dir()\<close> and \<^verbatim>\<open>str(time.time())\<close>.
\<close>

record cfg_env =
  py_float :: "string \<Rightarrow> real option"
  str_float :: "real \<Rightarrow> string"
  parse_noproxy :: "string \<Rightarrow> py_error + string set"
  getauth :: "string \<Rightarrow> py_error option"
  path_exists :: "string \<Rightarrow> bool"
  path_isabs :: "string \<Rightarrow> bool"
  path_join :: "string \<Rightarrow> string \<Rightarrow> string"
  script_relative :: "string \<Rightarrow> string"
  urlparse :: "string \<Rightarrow> string \<times> string"
  sys_argv :: "string list"
  process_name :: string
  getcwd :: string
  script_dir :: string
  time_str :: string

definition pprint :: "string \<Rightarrow> State \<Rightarrow> State" where
  "pprint line S = S\<lparr>printed := printed S @ [line]\<rparr>"

text \<open>\<^verbatim>\<open>str(val)\<close> of a value.\<close>

definition str_val :: "cfg_env \<Rightarrow> pyval \<Rightarrow> string" where
  "str_val cenv v = (case v of PInt i \<Rightarrow> str_int i | PFloat r \<Rightarrow> str_float cenv r | PStr s \<Rightarrow> s)"

definition get_logfile :: "cfg_env \<Rightarrow> pyval \<Rightarrow> log_target option" where
  "get_logfile cenv loc =
     (let name = (if ''--quit'' \<in> set (sys_argv cenv) then ''quit'' else process_name cenv)
      in if loc = PInt 1 then
           Some (Log_file (path_join cenv (script_dir cenv) (''debug-'' @ name @ ''.log'')))
         else if loc = PInt 2 then
           Some (Log_file (path_join cenv (getcwd cenv) (''debug-'' @ name @ ''.log'')))
         else if loc = PInt 3 then
           (let name' = (case filter (\<lambda>arg. startswith arg ''--port='') (sys_argv cenv) of
                           [] \<Rightarrow> name
                         | arg # _ \<Rightarrow> drop 7 arg @ ''-'' @ name)
            in Some (Log_file (path_join cenv (getcwd cenv)
                        (''debug-'' @ name' @ ''-'' @ time_str cenv @ ''.log''))))
         else if loc = PInt 4 then Some Log_stdout
         else None)"

definition file_url_to_local_path :: "cfg_env \<Rightarrow> string \<Rightarrow> string option" where
  "file_url_to_local_path cenv file_url =
     (case urlparse cenv file_url of
        (netloc, pth) \<Rightarrow>
          if startswith pth ''/'' \<and> \<not> startswith pth ''//'' then
            (if length netloc = 2 \<and> netloc ! 1 = CHR '':'' then Some (netloc @ pth)
             else Some (''C:'' @ pth))
          else if length pth > 2 \<and> pth ! 1 = CHR '':'' then Some pth
          else None)"

definition set_pac :: "cfg_env \<Rightarrow> string \<Rightarrow> State \<Rightarrow> py_error + State" where
  "set_pac cenv p S =
     (if p = [] then Inr S
      else
        (case (if startswith p ''http'' then Inr (p, True)
               else if startswith p ''file'' then
                 (case file_url_to_local_path cenv p of
                    None \<Rightarrow> Inl TypeError
                  | Some q \<Rightarrow> Inr (q, path_exists cenv q))
               else
                 (let q = (if \<not> path_isabs cenv p then script_relative cenv p else p)
                  in Inr (q, path_exists cenv q))) of
           Inl e \<Rightarrow> Inl e
         | Inr (q, pacproxy) \<Rightarrow>
             if pacproxy then Inr (S\<lparr>pac := q\<rparr>) else Inl SystemExit))"

definition set_listen :: "string \<Rightarrow> State \<Rightarrow> py_error + State" where
  "set_listen s S =
     Inr (S\<lparr>listen :=
            foldl (\<lambda>acc intf. let clean = py_strip intf
                              in if length clean \<noteq> 0 \<and> clean \<notin> set acc then acc @ [clean] else acc)
              (listen S) (py_split CHR '','' s)\<rparr>)"

definition set_allow :: "cfg_env \<Rightarrow> string \<Rightarrow> State \<Rightarrow> py_error + State" where
  "set_allow cenv s S =
     (case parse_noproxy cenv s of Inl e \<Rightarrow> Inl e | Inr ips \<Rightarrow> Inr (S\<lparr>allow := ips\<rparr>))"

definition set_noproxy :: "string \<Rightarrow> State \<Rightarrow> py_error + State" where
  "set_noproxy s S = Inr (S\<lparr>noproxy := s\<rparr>)"

definition set_useragent :: "string \<Rightarrow> State \<Rightarrow> py_error + State" where
  "set_useragent s S = Inr (S\<lparr>useragent := s\<rparr>)"

definition set_username :: "string \<Rightarrow> State \<Rightarrow> py_error + State" where
  "set_username s S = Inr (S\<lparr>username := s\<rparr>)"

definition set_auth :: "cfg_env \<Rightarrow> string \<Rightarrow> State \<Rightarrow> py_error + State" where
  "set_auth cenv s S =
     (let a = (if length s = 0 then ''ANY'' else s)
      in case getauth cenv a of Some e \<Rightarrow> Inl e | None \<Rightarrow> Inr (S\<lparr>auth := a\<rparr>))"

definition set_debug :: "cfg_env \<Rightarrow> pyval \<Rightarrow> State \<Rightarrow> py_error + State" where
  "set_debug cenv loc S =
     (if debug S = None then
        (case get_logfile cenv loc of
           None \<Rightarrow> Inr S
         | Some logfile \<Rightarrow>
             Inr (S\<lparr>location := (case loc of PInt i \<Rightarrow> i | _ \<Rightarrow> location S),
                    debug := Some logfile\<rparr>))
      else Inr S)"

definition set_idle :: "pyval \<Rightarrow> State \<Rightarrow> py_error + State" where
  "set_idle v S = Inr (S\<lparr>idle := v\<rparr>)"

text \<open>
  \<^verbatim>\<open>set_socktimeout\<close> also calls \<^verbatim>\<open>socket.setdefaulttimeout\<close>, which raises
  \<^verbatim>\<open>TypeError\<close> for a string and \<^verbatim>\<open>ValueError\<close> for a negative number.
\<close>

definition set_socktimeout :: "pyval \<Rightarrow> State \<Rightarrow> py_error + State" where
  "set_socktimeout v S =
     (case v of
        PStr s \<Rightarrow> Inl TypeError
      | PInt i \<Rightarrow> if i < 0 then Inl ValueError else Inr (S\<lparr>socktimeout := v\<rparr>)
      | PFloat r \<Rightarrow> if r < 0 then Inl ValueError else Inr (S\<lparr>socktimeout := v\<rparr>))"

definition set_proxyreload :: "pyval \<Rightarrow> State \<Rightarrow> py_error + State" where
  "set_proxyreload v S = Inr (S\<lparr>proxyreload := v\<rparr>)"

text \<open>
  The dictionary \<^verbatim>\<open>callbacks\<close> of \<^verbatim>\<open>parse_config\<close>. A callback of a string setting
  is only ever given a string.
\<close>

definition on_str :: "(string \<Rightarrow> State \<Rightarrow> py_error + State) \<Rightarrow> pyval \<Rightarrow> State \<Rightarrow> py_error + State" where
  "on_str f v S = (case v of PStr s \<Rightarrow> f s S | _ \<Rightarrow> Inl TypeError)"

definition callbacks :: "cfg_env \<Rightarrow> string \<Rightarrow> (pyval \<Rightarrow> State \<Rightarrow> py_error + State) option" where
  "callbacks cenv name =
     (if name = ''pac'' then Some (on_str (set_pac cenv))
      else if name = ''listen'' then Some (on_str set_listen)
      else if name = ''allow'' then Some (on_str (set_allow cenv))
      else if name = ''noproxy'' then Some (on_str set_noproxy)
      else if name = ''useragent'' then Some (on_str set_useragent)
      else if name = ''username'' then Some (on_str set_username)
      else if name = ''auth'' then Some (on_str (set_auth cenv))
      else if name = ''log'' then Some (set_debug cenv)
      else if name = ''idle'' then Some set_idle
      else if name = ''socktimeout'' then Some set_socktimeout
      else if name = ''proxyreload'' then Some set_proxyreload
      else None)"

subsection \<open>Settings: \<^verbatim>\<open>cfg_int_init\<close>, \<^verbatim>\<open>cfg_float_init\<close>, \<^verbatim>\<open>cfg_str_init\<close>\<close>

text \<open>
  \<^verbatim>\<open>State.config.get(section, name)\<close> is the lookup in the map (the sections exist;
  the \<^verbatim>\<open>DEFAULT\<close> section and the interpolation of \<^verbatim>\<open>%\<close> in values are left out).
  The value read from the file, stripped, replaces the default unless \<^verbatim>\<open>override\<close>
  is set.
\<close>

definition cfg_value :: "string \<Rightarrow> string \<Rightarrow> string \<Rightarrow> bool \<Rightarrow> State \<Rightarrow> string" where
  "cfg_value section name dflt override S =
     (if \<not> override then
        (case config S (section, name) of Some v \<Rightarrow> py_strip v | None \<Rightarrow> dflt)
      else dflt)"

definition config_set :: "string \<Rightarrow> string \<Rightarrow> string \<Rightarrow> State \<Rightarrow> State" where
  "config_set section name v S = S\<lparr>config := (config S)((section, name) \<mapsto> v)\<rparr>"

definition call_proc ::
  "(pyval \<Rightarrow> State \<Rightarrow> py_error + State) option \<Rightarrow> pyval \<Rightarrow> State \<Rightarrow> py_error + State" where
  "call_proc proc v S = (case proc of None \<Rightarrow> Inr S | Some f \<Rightarrow> f v S)"

definition cfg_int_init ::
  "cfg_env \<Rightarrow> string \<Rightarrow> string \<Rightarrow> string \<Rightarrow> (pyval \<Rightarrow> State \<Rightarrow> py_error + State) option
     \<Rightarrow> bool \<Rightarrow> State \<Rightarrow> py_error + State" where
  "cfg_int_init cenv section name dflt proc override S =
     (let val = cfg_value section name dflt override S
      in case py_int val of
           Some i \<Rightarrow> call_proc proc (PInt i) (config_set section name (str_val cenv (PInt i)) S)
         | None \<Rightarrow>
             call_proc proc (PStr val)
               (config_set section name (str_val cenv (PStr val))
                  (pprint (''Invalid integer value for '' @ section @ '':'' @ name) S)))"

definition cfg_float_init ::
  "cfg_env \<Rightarrow> string \<Rightarrow> string \<Rightarrow> string \<Rightarrow> (pyval \<Rightarrow> State \<Rightarrow> py_error + State) option
     \<Rightarrow> bool \<Rightarrow> State \<Rightarrow> py_error + State" where
  "cfg_float_init cenv section name dflt proc override S =
     (let val = cfg_value section name dflt override S
      in case py_float cenv val of
           Some r \<Rightarrow> call_proc proc (PFloat r) (config_set section name (str_val cenv (PFloat r)) S)
         | None \<Rightarrow>
             call_proc proc (PStr val)
               (config_set section name (str_val cenv (PStr val))
                  (pprint (''Invalid float value for '' @ section @ '':'' @ name) S)))"

definition cfg_str_init ::
  "string \<Rightarrow> string \<Rightarrow> string \<Rightarrow> (pyval \<Rightarrow> State \<Rightarrow> py_error + State) option
     \<Rightarrow> bool \<Rightarrow> State \<Rightarrow> py_error + State" where
  "cfg_str_init section name dflt proc override S =
     (let val = cfg_value section name dflt override S
      in call_proc proc (PStr val) (config_set section name val S))"

subsection \<open>Settings: \<^verbatim>\<open>parse_config\<close>, lines 810 to 903\<close>

text \<open>The dictionary \<^verbatim>\<open>defaults\<close>.\<close>

definition defaults :: pydict where
  "defaults =
     [(''server'', ''''), (''pac'', ''''), (''pac_encoding'', ''utf-8''), (''port'', ''3128''),
      (''listen'', ''127.0.0.1''), (''allow'', ''*.*.*.*''), (''gateway'', ''0''),
      (''hostonly'', ''0''), (''noproxy'', ''''), (''useragent'', ''''), (''username'', ''''),
      (''auth'', ''''), (''workers'', ''2''), (''threads'', ''32''), (''idle'', ''30''),
      (''socktimeout'', ''20.0''), (''proxyreload'', ''60''), (''foreground'', ''0''),
      (''log'', ''0'')]"

text \<open>The nested function \<^verbatim>\<open>cfg_init\<close>, and the four lists of names it tests.\<close>

definition proxy_str_keys :: "string list" where
  "proxy_str_keys = [''server'', ''pac'', ''pac_encoding'', ''listen'', ''allow'', ''noproxy'',
                     ''useragent'', ''username'', ''auth'']"

definition proxy_int_keys :: "string list" where
  "proxy_int_keys = [''port'', ''gateway'', ''hostonly'']"

definition settings_int_keys :: "string list" where
  "settings_int_keys = [''workers'', ''threads'', ''idle'', ''proxyreload'', ''foreground'', ''log'']"

definition settings_float_keys :: "string list" where
  "settings_float_keys = [''socktimeout'']"

definition cfg_init :: "cfg_env \<Rightarrow> bool \<Rightarrow> State \<Rightarrow> string \<times> string \<Rightarrow> py_error + State" where
  "cfg_init cenv override S nv =
     (case nv of (name, val) \<Rightarrow>
        (let callback = callbacks cenv name
         in if name \<in> set proxy_str_keys
            then cfg_str_init ''proxy'' name val callback override S
            else if name \<in> set proxy_int_keys
            then cfg_int_init cenv ''proxy'' name val callback override S
            else if name \<in> set settings_int_keys
            then cfg_int_init cenv ''settings'' name val callback override S
            else if name \<in> set settings_float_keys
            then cfg_float_init cenv ''settings'' name val callback override S
            else Inr S))"

text \<open>\<^verbatim>\<open>for name, val in d.items(): cfg_init(name, val, override)\<close>; an exception ends it.\<close>

fun cfg_init_items :: "cfg_env \<Rightarrow> bool \<Rightarrow> pydict \<Rightarrow> State \<Rightarrow> py_error + State" where
  "cfg_init_items cenv override [] S = Inr S"
| "cfg_init_items cenv override (nv # items) S =
     (case cfg_init cenv override S nv of
        Inl e \<Rightarrow> Inl e
      | Inr S' \<Rightarrow> cfg_init_items cenv override items S')"

text \<open>
  Lines 810 to 875: the override of \<^verbatim>\<open>log\<close>, then the defaults, the environment and
  the command line flags, in this order.
\<close>

definition cfg_passes :: "cfg_env \<Rightarrow> pydict \<Rightarrow> pydict \<Rightarrow> State \<Rightarrow> py_error + State" where
  "cfg_passes cenv env flags S =
     (case cfg_int_init cenv ''settings'' ''log'' (str_int (location S)) None True S of
        Inl e \<Rightarrow> Inl e
      | Inr S0 \<Rightarrow>
          (case cfg_init_items cenv False defaults S0 of
             Inl e \<Rightarrow> Inl e
           | Inr S1 \<Rightarrow>
               (case cfg_init_items cenv True env S1 of
                  Inl e \<Rightarrow> Inl e
                | Inr S2 \<Rightarrow> cfg_init_items cenv True flags S2)))"

text \<open>\<^verbatim>\<open>State.config.getint(section, name)\<close>.\<close>

definition getint :: "string \<Rightarrow> string \<Rightarrow> State \<Rightarrow> py_error + int" where
  "getint section name S =
     (case config S (section, name) of
        None \<Rightarrow> Inl NoOptionError
      | Some v \<Rightarrow> (case py_int v of None \<Rightarrow> Inl ValueError | Some i \<Rightarrow> Inr i))"

text \<open>Lines 877 to 903: gateway mode and host-only mode.\<close>

definition propagate :: "cfg_env \<Rightarrow> State \<Rightarrow> py_error + State" where
  "propagate cenv S =
     (case (getint ''proxy'' ''gateway'' S, config S (''proxy'', ''allow'')) of
        (Inl e, _) \<Rightarrow> Inl e
      | (Inr gateway, None) \<Rightarrow> Inl NoOptionError
      | (Inr gateway, Some allow_rule) \<Rightarrow>
          (let S1 = (if gateway = 1 then S\<lparr>listen := [[]]\<rparr> else S)
           in case getint ''proxy'' ''hostonly'' S1 of
                Inl e \<Rightarrow> Inl e
              | Inr h \<Rightarrow>
                  if h = 1 then
                    (let S2 = S1\<lparr>hostonly := True, listen := [[]]\<rparr>
                     in if gateway = 0
                           \<or> (gateway = 1 \<and> allow_rule \<in> set [''*.*.*.*'', ''0.0.0.0/0''])
                        then cfg_str_init ''proxy'' ''allow'' [] (Some (on_str (set_allow cenv))) True S2
                        else Inr S2)
                  else Inr S1))"

definition parse_settings :: "cfg_env \<Rightarrow> pydict \<Rightarrow> pydict \<Rightarrow> State \<Rightarrow> py_error + State" where
  "parse_settings cenv env flags S =
     (case cfg_passes cenv env flags S of Inl e \<Rightarrow> Inl e | Inr S' \<Rightarrow> propagate cenv S')"

text \<open>Concrete inputs: surroundings for the settings, and three configuration files.\<close>

definition plain_cfg_env :: cfg_env where
  "plain_cfg_env =
     \<lparr>py_float = (\<lambda>s. if py_strip s = ''20.0'' then Some 20 else None),
      str_float = (\<lambda>r. ''20.0''),
      parse_noproxy = (\<lambda>s. Inr (if s = ''*.*.*.*'' then UNIV else set (py_split CHR '','' s) - {[]})),
      getauth = (\<lambda>a. None),
      path_exists = (\<lambda>p. False),
      path_isabs = (\<lambda>p. startswith p ''/''),
      path_join = (\<lambda>d f. d @ ''/'' @ f),
      script_relative = (\<lambda>p. ''/opt/px/'' @ p),
      urlparse = (\<lambda>u. ([], u)),
      sys_argv = [''px''],
      process_name = ''MainProcess'',
      getcwd = ''/home/user'',
      script_dir = ''/opt/px'',
      time_str = ''0.0''\<rparr>"


definition ini_port_abc :: State where
  "ini_port_abc = State_init\<lparr>config := [(''proxy'', ''port'') \<mapsto> ''abc'']\<rparr>"

text \<open>
  The section and the type \<^verbatim>\<open>cfg_init\<close> gives a key, and the string
  \<^verbatim>\<open>cfg_str_init\<close>, \<^verbatim>\<open>cfg_int_init\<close> or \<^verbatim>\<open>cfg_float_init\<close> stores for a value:
  \<^verbatim>\<open>str(int(v))\<close> or \<^verbatim>\<open>str(float(v))\<close> where the conversion succeeds, \<^verbatim>\<open>v\<close> itself otherwise.
\<close>

datatype kind = KStr | KInt | KFloat


definition stored :: "cfg_env \<Rightarrow> kind \<Rightarrow> string \<Rightarrow> string" where
  "stored cenv k v =
     (case k of
        KStr \<Rightarrow> v
      | KInt \<Rightarrow> (case py_int v of Some i \<Rightarrow> str_int i | None \<Rightarrow> v)
      | KFloat \<Rightarrow> (case py_float cenv v of Some r \<Rightarrow> str_float cenv r | None \<Rightarrow> v))"

definition ini_socktimeout_abc :: State where
  "ini_socktimeout_abc = State_init\<lparr>config := [(''settings'', ''socktimeout'') \<mapsto> ''abc'']\<rparr>"

section \<open>Theorems\<close>

subsection \<open>C1: admission\<close>

text \<open>
  C1 as stated takes the local-interface set to be the one computed once at startup.
  The source calls \<^verbatim>\<open>get_host_ips()\<close> inside \<^verbatim>\<open>verify_request\<close>, so the set is the
  one the host resolves to when the connection is checked. With host-only mode, an empty
  allow set, a host that resolved to 192.168.1.10 at startup and resolves to 10.0.0.5
  now, the client 10.0.0.5 is admitted although it is neither in \<^verbatim>\<open>allow\<close> nor in
  the startup set.
\<close>

theorem verify_request_startup_set_counterexample:
  "verify_request hostonly_state env_at_request ''10.0.0.5'' = Inr True
   \<and> ''10.0.0.5'' \<notin> allow hostonly_state
   \<and> get_host_ips env_at_startup = Inr [''127.0.0.1'', ''192.168.1.10'']
   \<and> ''10.0.0.5'' \<notin> set [''127.0.0.1'', ''192.168.1.10'']"
  by (simp add: verify_request_def get_host_ips_def hostonly_state_def
      State_init_def env_at_request_def env_at_startup_def)

text \<open>
  C1 (amended): a client is admitted if and only if its address is in \<^verbatim>\<open>allow\<close>, or
  \<^verbatim>\<open>hostonly\<close> is set and the address is in the list \<^verbatim>\<open>get_host_ips()\<close> returns at
  the time of the check (127.0.0.1 first, then the addresses the host name resolves to).
  A connection the check rejects is shut down at once, and a connection that is not
  admitted has no byte read from it or written to it.
\<close>

theorem verify_request_admission:
  "(verify_request S env ip = Inr True \<longleftrightarrow>
      ip \<in> allow S \<or> (hostonly S \<and> (\<exists>ips. get_host_ips env = Inr ips \<and> ip \<in> set ips)))
   \<and> (verify_request S env ip = Inr False \<longrightarrow>
      handle_request_noblock S env ip c = (Shutdown, c\<lparr>is_open := False\<rparr>))
   \<and> (verify_request S env ip \<noteq> Inr True \<longrightarrow>
      fst (handle_request_noblock S env ip c) \<noteq> Submitted
      \<and> bytes_written (snd (handle_request_noblock S env ip c)) = bytes_written c
      \<and> bytes_read (snd (handle_request_noblock S env ip c)) = bytes_read c)"
  by (auto simp: verify_request_def handle_request_noblock_def shutdown_request_def
      split: sum.splits if_splits)

theorem verify_request_admission_witness:
  "verify_request subnet_state env_at_request ''10.0.0.5'' = Inr False
   \<and> handle_request_noblock subnet_state env_at_request ''10.0.0.5'' fresh_connection
       = (Shutdown, \<lparr>is_open = False, bytes_read = 0, bytes_written = 0\<rparr>)
   \<and> verify_request hostonly_state env_at_request ''10.0.0.5'' = Inr True
   \<and> verify_request hostonly_state env_at_request ''127.0.0.1'' = Inr True
   \<and> verify_request subnet_state env_at_request ''192.168.1.7'' = Inr True"
  using verify_request_admission [of subnet_state env_at_request "''10.0.0.5''" fresh_connection]
    verify_request_admission [of hostonly_state env_at_request "''10.0.0.5''" fresh_connection]
  by (simp add: verify_request_def get_host_ips_def subnet_state_def hostonly_state_def
      State_init_def env_at_request_def fresh_connection_def)

subsection \<open>C6: the resolver refresh\<close>

lemma reload_proxy_locked_cases:
  "proxyreload S = PInt n \<Longrightarrow>
   reload_proxy_locked env S = Inr (S, []) \<and>
     (\<exists>stamp. proxy_last_reload S = Some stamp \<and> now_check env - stamp < of_int n)
   \<or> reload_proxy_locked env S =
        Inr (S\<lparr>wproxy := Some (new_wproxy env (noproxy S)),
               proxy_last_reload := Some (now_done env)\<rparr>, [Wproxy_init (noproxy S)])
      \<and> (case proxy_last_reload S of None \<Rightarrow> True | Some l \<Rightarrow> of_int n \<le> now_check env - l)"
  by (auto simp: reload_proxy_locked_def seconds_lt_def split: option.splits)

lemma reload_proxy_threads_spaced:
  "proxyreload S = PInt n \<Longrightarrow>
     spaced (of_int n) (proxy_last_reload S) (snd (reload_proxy_threads calls S past))"
proof (induction calls arbitrary: S past)
  case Nil
  then show ?case by simp
next
  case (Cons call calls)
  obtain env age where call: "call = (env, age)" by (cases call)
  note same = Cons.IH [OF Cons.prems, of past]
  let ?S1 = "S\<lparr>wproxy := Some (new_wproxy env (noproxy S)),
               proxy_last_reload := Some (now_done env)\<rparr>"
  have "proxyreload ?S1 = PInt n" using Cons.prems by simp
  note fresh = Cons.IH [OF this, of "S # past"]
  note skip = Cons.IH [OF Cons.prems, of "S # past"]
  from reload_proxy_locked_cases [OF Cons.prems, of env]
  show ?case
  proof (elim disjE conjE exE)
    fix stamp
    assume "reload_proxy_locked env S = Inr (S, [])"
    with same skip call show ?thesis
      by (auto split: option.splits prod.splits)
  next
    assume "reload_proxy_locked env S = Inr (?S1, [Wproxy_init (noproxy S)])"
      and "case proxy_last_reload S of None \<Rightarrow> True | Some l \<Rightarrow> of_int n \<le> now_check env - l"
    with same fresh call show ?thesis
      by (auto split: option.splits prod.splits)
  qed
qed

lemma reload_proxy_threads_config:
  "wproxy S = Some w \<Longrightarrow> mode_is_config w \<Longrightarrow> reload_proxy_threads calls S [] = (S, [])"
  by (induction calls) auto

text \<open>
  C6: with \<^verbatim>\<open>proxyreload\<close> an integer \<^verbatim>\<open>n\<close>, among any number of calls of
  \<^verbatim>\<open>reload_proxy\<close> by any threads, in whatever order they reach the lock and however
  old the mode they read, every refresh passes its check at least \<^verbatim>\<open>n\<close> seconds
  after the time stamp the refresh before it (or startup) stored. A caller inside the
  window leaves the state as it is. When the mode is \<^verbatim>\<open>MODE_CONFIG\<close> or
  \<^verbatim>\<open>MODE_CONFIG_PAC\<close> a call changes nothing and builds no \<^verbatim>\<open>Wproxy\<close>, and neither do
  any number of calls by any threads.
\<close>

theorem reload_proxy_at_most_once:
  "(proxyreload S = PInt n \<longrightarrow>
      spaced (of_int n) (proxy_last_reload S) (snd (reload_proxy_threads calls S past)))
   \<and> (proxyreload S = PInt n \<and> proxy_last_reload S = Some stamp
        \<and> now_check env - stamp < of_int n \<longrightarrow>
      reload_proxy_locked env S = Inr (S, []))
   \<and> (wproxy S = Some w \<and> mode_is_config w \<longrightarrow>
      reload_proxy env S = Inr (S, []) \<and> reload_proxy_threads calls S [] = (S, []))"
proof (intro conjI impI)
  assume "proxyreload S = PInt n"
  then show "spaced (of_int n) (proxy_last_reload S) (snd (reload_proxy_threads calls S past))"
    by (rule reload_proxy_threads_spaced)
next
  assume "proxyreload S = PInt n \<and> proxy_last_reload S = Some stamp
        \<and> now_check env - stamp < of_int n"
  then show "reload_proxy_locked env S = Inr (S, [])"
    by (simp add: reload_proxy_locked_def seconds_lt_def)
next
  assume "wproxy S = Some w \<and> mode_is_config w"
  then show "reload_proxy env S = Inr (S, [])"
    by (simp add: reload_proxy_def)
next
  assume "wproxy S = Some w \<and> mode_is_config w"
  then show "reload_proxy_threads calls S [] = (S, [])"
    by (simp add: reload_proxy_threads_config)
qed

theorem reload_proxy_at_most_once_witness:
  "proxyreload discovered_state = PInt 60
   \<and> snd (reload_proxy_threads four_calls discovered_state []) = [(61, 62), (122, 123)]
   \<and> proxy_last_reload (fst (reload_proxy_threads four_calls discovered_state [])) = Some 123
   \<and> spaced 60 (Some 0) [(61, 62), (122, 123)]
   \<and> reload_proxy_locked (at_time 10 11) discovered_state = Inr (discovered_state, [])
   \<and> reload_proxy (at_time 61 62) (discovered_state\<lparr>wproxy := Some static_wproxy\<rparr>)
       = Inr (discovered_state\<lparr>wproxy := Some static_wproxy\<rparr>, [])
   \<and> reload_proxy_threads [(at_time 61 62, 0), (at_time 200 201, 1)]
       (discovered_state\<lparr>wproxy := Some static_wproxy\<rparr>) []
       = (discovered_state\<lparr>wproxy := Some static_wproxy\<rparr>, [])"
  using reload_proxy_at_most_once [of discovered_state 60 four_calls "[]" 0 "at_time 10 11"
      pac_wproxy]
    reload_proxy_at_most_once [of "discovered_state\<lparr>wproxy := Some static_wproxy\<rparr>" 60
      "[(at_time 61 62, 0), (at_time 200 201, 1)]" "[]" 0 "at_time 61 62" static_wproxy]
  by (simp add: discovered_state_def State_init_def four_calls_def at_time_def linux_env_def
      pac_wproxy_def static_wproxy_def mode_is_config_def reload_proxy_locked_def
      seconds_lt_def)

subsection \<open>The handler: the shape of a request's trace\<close>

lemma quiet_append [simp]: "quiet (xs @ ys) = (quiet xs \<and> quiet ys)"
  by (auto simp: quiet_def)

lemma reload_proxy_trace:
  "reload_proxy env S = Inr (S1, tr1) \<Longrightarrow> tr1 = [] \<or> tr1 = [Wproxy_init (noproxy S)]"
  by (auto simp: reload_proxy_def reload_proxy_locked_def split: option.splits if_splits sum.splits)

lemma reload_proxy_keeps:
  "reload_proxy env S = Inr (S1, tr1) \<Longrightarrow>
     username S1 = username S \<and> auth S1 = auth S \<and> idle S1 = idle S"
  by (auto simp: reload_proxy_def reload_proxy_locked_def split: option.splits if_splits sum.splits)



lemma get_destination_upstream:
  assumes "reload_proxy env S = Inr (S1, tr1)" "wproxy S1 = Some w"
    and "find_proxy_for_url w (request_url h) = (Server server port # rest, netloc, pth)"
  shows "get_destination env S h = (Inr None, h\<lparr>proxy_servers := Server server port # rest\<rparr>, S1, tr1)"
  using assms by (simp add: get_destination_def)




subsection \<open>The handler: unfolding lemmas and auxiliary facts\<close>

lemmas concrete_defs = discovered_state_def State_init_def linux_env_def pac_wproxy_def
  static_wproxy_def get_request_def connect_request_def user_state_def rejecting_env_def
  first_down_env_def at_time_def

lemmas handler_defs = do_curl_def acquire_curl_def get_destination_def request_url_def
  reload_proxy_def reload_proxy_locked_def
  seconds_lt_def mode_is_config_def configure_proxy_def transfer_def send_error_def
  handle_one_request_def is_socket_error_def

lemmas str_defs = str_int_def str_nat.simps digit_char_def

lemma filter_absent: "x \<notin> set xs \<Longrightarrow> filter (\<lambda>ev. ev = x) xs = []"
  by (induction xs) auto


lemma transfer_once:
  "transfer env S h = (r, h', tr) \<Longrightarrow>
     (\<forall>s p n. Set_proxy s p n \<notin> set tr) \<and> length (filter (\<lambda>ev. ev = Mcurl_do) tr) \<le> 1
     \<and> (\<forall>c resp errstr. curl h = Some c \<and> mcurl_do env c = Do_failed resp errstr
           \<longrightarrow> Send_error resp errstr \<in> set tr)"
  by (auto simp: transfer_def send_error_def Let_def
      split: option.splits do_result.splits if_splits)

lemma configure_proxy_first:
  "configure_proxy env S h = (f, h2, tr2) \<Longrightarrow> proxy_servers h = Server server port # rest \<Longrightarrow>
     (\<forall>s p n. Set_proxy s p n \<in> set tr2 \<longrightarrow> s = server \<and> p = port) \<and> Mcurl_do \<notin> set tr2
     \<and> (f = Continue \<longrightarrow> (\<exists>c. curl h = Some c \<and> curl h2 = Some (c\<lparr>proxy := Some (server, port)\<rparr>)))"
  by (auto simp: configure_proxy_def send_error_def Let_def
      split: option.splits if_splits)

subsection \<open>C3: no credential and no SSPI\<close>

text \<open>
  C3 as stated holds for every non-DIRECT request without a user name off Windows. The
  source asks \<^verbatim>\<open>set_proxy\<close> first: when it rejects the upstream, the client gets 401
  and the credentials are never looked at. Here the request is not DIRECT (the resolver
  answers the upstream a:1 first), no user name is configured and the platform is
  Linux, yet the only error sent is 401.
\<close>

theorem do_curl_no_credential_counterexample:
  "username discovered_state = [] \<and> platform rejecting_env \<noteq> ''win32''
   \<and> fst (get_destination rejecting_env discovered_state get_request) = Inr None
   \<and> do_curl rejecting_env discovered_state get_request =
       (None,
        get_request\<lparr>proxy_servers := [Server ''a'' 1, Server ''b'' 2, DIRECT],
          curl := Some \<lparr>url = ''http://example.com/'', http_method = ''GET'', proxy = None\<rparr>,
          close_connection := True\<rparr>,
        discovered_state,
        [Curl_new ''http://example.com/'' ''GET'' ''HTTP/1.1'' (PFloat 20),
         Set_proxy ''a'' 1 None,
         Send_error 401 ''Proxy server authentication failed: a:1''])"
  by (simp add: handler_defs concrete_defs str_defs)

text \<open>
  C3 (amended): for a non-DIRECT request (after the refresh the resolver answers a list
  whose first entry is an upstream) whose upstream \<^verbatim>\<open>set_proxy\<close> accepts, with an
  empty user name and a platform other than \<^verbatim>\<open>win32\<close>, \<^verbatim>\<open>do_curl\<close> ends with
  \<^verbatim>\<open>send_error(501, "SSPI not available and no username configured")\<close> right after
  \<^verbatim>\<open>set_proxy\<close>, and the driver is not run.
\<close>

theorem do_curl_no_credential:
  assumes "reload_proxy env S = Inr (S1, tr1)" and "wproxy S1 = Some w"
    and "find_proxy_for_url w (request_url h) = (Server server port # rest, netloc, pth)"
    and "set_proxy_result env server port" and "username S = []" and "platform env \<noteq> ''win32''"
  shows "\<exists>r h' pre np. do_curl env S h =
           (r, h', S1, pre @ [Set_proxy server port np,
              Send_error 501 ''SSPI not available and no username configured''])
         \<and> Mcurl_do \<notin> set pre"
proof -
  obtain h0 tr0 where acq: "acquire_curl S h = (h0, tr0)" by (cases "acquire_curl S h")
  then have url: "request_url h0 = request_url h" and c0: "curl h0 \<noteq> None"
    and tr0: "Mcurl_do \<notin> set tr0"
    by (auto simp: acquire_curl_def request_url_def split: if_splits)
  have dest: "get_destination env S h0 = (Inr None, h0\<lparr>proxy_servers := Server server port # rest\<rparr>, S1, tr1)"
    using assms(1-3) url by (intro get_destination_upstream) simp_all
  from reload_proxy_trace [OF assms(1)] have tr1: "tr1 = [] \<or> tr1 = [Wproxy_init (noproxy S)]" .
  from reload_proxy_keeps [OF assms(1)] have user: "username S1 = username S" by simp
  show ?thesis
    using acq dest tr0 tr1 c0 user assms(2,4,5,6)
    by (auto simp: do_curl_def Let_def configure_proxy_def send_error_def)
qed

theorem do_curl_no_credential_witness:
  "username discovered_state = [] \<and> platform linux_env \<noteq> ''win32''
   \<and> (\<exists>r h' pre np. do_curl linux_env discovered_state get_request =
           (r, h', discovered_state, pre @ [Set_proxy ''a'' 1 np,
              Send_error 501 ''SSPI not available and no username configured''])
         \<and> Mcurl_do \<notin> set pre)"
proof -
  have a: "reload_proxy linux_env discovered_state = Inr (discovered_state, [])"
    by (simp add: handler_defs concrete_defs)
  have b: "wproxy discovered_state = Some pac_wproxy" by (simp add: concrete_defs)
  have c: "find_proxy_for_url pac_wproxy (request_url get_request)
      = (Server ''a'' 1 # [Server ''b'' 2, DIRECT], ''example.com:80'', ''/'')"
    by (simp add: concrete_defs)
  have d: "set_proxy_result linux_env ''a'' 1" by (simp add: concrete_defs)
  have e: "username discovered_state = []" by (simp add: concrete_defs)
  have f: "platform linux_env \<noteq> ''win32''" by (simp add: concrete_defs)
  from do_curl_no_credential [OF a b c d e f] e f show ?thesis by blast
qed

subsection \<open>C4: the upstream is rejected\<close>

text \<open>
  C4: for a non-DIRECT request whose upstream \<^verbatim>\<open>set_proxy\<close> rejects, \<^verbatim>\<open>do_curl\<close>
  ends with \<^verbatim>\<open>send_error(401, "Proxy server authentication failed: host:port")\<close> right
  after \<^verbatim>\<open>set_proxy\<close>; no credentials are installed and the driver is not run.
\<close>

theorem do_curl_upstream_rejected:
  assumes "reload_proxy env S = Inr (S1, tr1)" and "wproxy S1 = Some w"
    and "find_proxy_for_url w (request_url h) = (Server server port # rest, netloc, pth)"
    and "\<not> set_proxy_result env server port"
  shows "\<exists>r h' pre np. do_curl env S h =
           (r, h', S1, pre @ [Set_proxy server port np,
              Send_error 401 (''Proxy server authentication failed: '' @ server @ '':'' @ str_int port)])
         \<and> (\<forall>u p a. Set_auth u p a \<notin> set pre) \<and> Mcurl_do \<notin> set pre"
proof -
  obtain h0 tr0 where acq: "acquire_curl S h = (h0, tr0)" by (cases "acquire_curl S h")
  then have url: "request_url h0 = request_url h" and c0: "curl h0 \<noteq> None"
    and tr0: "(\<forall>u p a. Set_auth u p a \<notin> set tr0) \<and> Mcurl_do \<notin> set tr0"
    by (auto simp: acquire_curl_def request_url_def split: if_splits)
  have dest: "get_destination env S h0 = (Inr None, h0\<lparr>proxy_servers := Server server port # rest\<rparr>, S1, tr1)"
    using assms(1-3) url by (intro get_destination_upstream) simp_all
  from reload_proxy_trace [OF assms(1)] have tr1: "tr1 = [] \<or> tr1 = [Wproxy_init (noproxy S)]" .
  show ?thesis
    using acq dest tr0 tr1 c0 assms(2,4)
    by (auto simp: do_curl_def Let_def configure_proxy_def send_error_def)
qed

theorem do_curl_upstream_rejected_witness:
  "\<not> set_proxy_result rejecting_env ''a'' 1
   \<and> (\<exists>r h' pre np. do_curl rejecting_env user_state get_request =
           (r, h', user_state, pre @ [Set_proxy ''a'' 1 np,
              Send_error 401 ''Proxy server authentication failed: a:1''])
         \<and> (\<forall>u p a. Set_auth u p a \<notin> set pre) \<and> Mcurl_do \<notin> set pre)"
proof -
  have a: "reload_proxy rejecting_env user_state = Inr (user_state, [])"
    by (simp add: handler_defs concrete_defs)
  have b: "wproxy user_state = Some pac_wproxy" by (simp add: concrete_defs)
  have c: "find_proxy_for_url pac_wproxy (request_url get_request)
      = (Server ''a'' 1 # [Server ''b'' 2, DIRECT], ''example.com:80'', ''/'')"
    by (simp add: concrete_defs)
  have d: "\<not> set_proxy_result rejecting_env ''a'' 1" by (simp add: concrete_defs)
  have s: "''Proxy server authentication failed: '' @ ''a'' @ '':'' @ str_int 1
      = ''Proxy server authentication failed: a:1''" by (simp add: str_defs)
  from do_curl_upstream_rejected [OF a b c d] d show ?thesis unfolding s by blast
qed

subsection \<open>C5: CONNECT\<close>



subsection \<open>C7: upstream lists of more than one entry\<close>

text \<open>
  C7 as stated promises a retry through the second entry. \<^verbatim>\<open>do_curl\<close> reads
  \<^verbatim>\<open>proxy_servers[0]\<close> only. Here the resolver answers a:1, b:2, DIRECT, the driver
  fails through a:1 and would succeed through b:2: the request is answered with the
  driver's error, and \<^verbatim>\<open>set_proxy\<close> is never called for b:2.
\<close>

theorem do_curl_fallback_counterexample:
  "find_proxy_for_url pac_wproxy (request_url get_request)
     = ([Server ''a'' 1, Server ''b'' 2, DIRECT], ''example.com:80'', ''/'')
   \<and> mcurl_do first_down_env \<lparr>url = ''http://example.com/'', http_method = ''GET'', proxy = Some (''a'', 1)\<rparr>
       = Do_failed 503 ''Could not connect to server''
   \<and> mcurl_do first_down_env \<lparr>url = ''http://example.com/'', http_method = ''GET'', proxy = Some (''b'', 2)\<rparr>
       = Do_ok
   \<and> snd (snd (snd (do_curl first_down_env user_state get_request))) =
       [Curl_new ''http://example.com/'' ''GET'' ''HTTP/1.1'' (PFloat 20),
        Set_proxy ''a'' 1 None, Set_auth ''corp-user'' None ''ANY'',
        Set_debug False, Bridge, Set_headers [(''Host'', ''example.com'')],
        Set_transfer_decoding False, Set_useragent [], Mcurl_do,
        Send_error 503 ''Could not connect to server'', Mcurl_remove]"
  by (simp add: handler_defs concrete_defs str_defs)

text \<open>
  C7 (amended): for a request routed through an upstream list, only the first entry is
  configured (every \<^verbatim>\<open>set_proxy\<close> of the request names it), the driver is run at most
  once, and when it fails through that entry the client is sent the driver's error.
\<close>

theorem do_curl_first_upstream_only:
  assumes "reload_proxy env S = Inr (S1, tr1)" and "wproxy S1 = Some w"
    and "find_proxy_for_url w (request_url h) = (Server server port # rest, netloc, pth)"
    and run: "do_curl env S h = (r, h', S', tr)"
  shows "(\<forall>s p n. Set_proxy s p n \<in> set tr \<longrightarrow> s = server \<and> p = port)
       \<and> length (filter (\<lambda>ev. ev = Mcurl_do) tr) \<le> 1
       \<and> (\<forall>resp errstr. Mcurl_do \<in> set tr
             \<and> mcurl_do env \<lparr>url = path h, http_method = command h, proxy = Some (server, port)\<rparr>
                 = Do_failed resp errstr
            \<longrightarrow> Send_error resp errstr \<in> set tr)"
proof -
  obtain h0 tr0 where acq: "acquire_curl S h = (h0, tr0)" by (cases "acquire_curl S h")
  then have url: "request_url h0 = request_url h"
    and c0: "curl h0 = Some \<lparr>url = path h, http_method = command h, proxy = None\<rparr>"
    and tr0: "(\<forall>s p n. Set_proxy s p n \<notin> set tr0) \<and> Mcurl_do \<notin> set tr0"
    by (auto simp: acquire_curl_def request_url_def split: if_splits)
  let ?h1 = "h0\<lparr>proxy_servers := Server server port # rest\<rparr>"
  have dest: "get_destination env S h0 = (Inr None, ?h1, S1, tr1)"
    using assms(1-3) url by (intro get_destination_upstream) simp_all
  from reload_proxy_trace [OF assms(1)] have tr1: "tr1 = [] \<or> tr1 = [Wproxy_init (noproxy S)]" .
  obtain f h2 tr2 where cp: "configure_proxy env S1 ?h1 = (f, h2, tr2)" by (metis prod_cases3)
  from configure_proxy_first [OF cp, of server port rest] c0
  have tr2: "\<forall>s p n. Set_proxy s p n \<in> set tr2 \<longrightarrow> s = server \<and> p = port" "Mcurl_do \<notin> set tr2"
    and cont: "f = Continue \<Longrightarrow>
        curl h2 = Some \<lparr>url = path h, http_method = command h, proxy = Some (server, port)\<rparr>"
    by auto
  have none: "filter (\<lambda>ev. ev = Mcurl_do) tr0 = []" "filter (\<lambda>ev. ev = Mcurl_do) tr1 = []"
    "filter (\<lambda>ev. ev = Mcurl_do) tr2 = []"
    using tr0 tr1 tr2(2) by (auto intro: filter_absent)
  show ?thesis
  proof (cases f)
    case Continue
    obtain r3 h3 tr3 where t: "transfer env S1 h2 = (r3, h3, tr3)" by (metis prod_cases3)
    from transfer_once [OF t] cont [OF Continue]
    have tr3: "\<forall>s p n. Set_proxy s p n \<notin> set tr3" "length (filter (\<lambda>ev. ev = Mcurl_do) tr3) \<le> 1"
      "\<forall>resp errstr. mcurl_do env \<lparr>url = path h, http_method = command h, proxy = Some (server, port)\<rparr>
          = Do_failed resp errstr \<longrightarrow> Send_error resp errstr \<in> set tr3"
      by auto
    have "tr = tr0 @ tr1 @ tr2 @ tr3"
      using run acq dest cp Continue t by (simp add: do_curl_def)
    with tr0 tr1 tr2 tr3 none show ?thesis by auto
  next
    case Return
    then have "tr = tr0 @ tr1 @ tr2" using run acq dest cp by (simp add: do_curl_def)
    with tr0 tr1 tr2 none show ?thesis by auto
  next
    case (Raise e)
    then have "tr = tr0 @ tr1 @ tr2" using run acq dest cp by (simp add: do_curl_def)
    with tr0 tr1 tr2 none show ?thesis by auto
  qed
qed

theorem do_curl_first_upstream_only_witness:
  "Set_proxy ''b'' 2 None \<notin> set (snd (snd (snd (do_curl first_down_env user_state get_request))))
   \<and> Send_error 503 ''Could not connect to server''
        \<in> set (snd (snd (snd (do_curl first_down_env user_state get_request))))"
proof -
  have a: "reload_proxy first_down_env user_state = Inr (user_state, [])"
    by (simp add: handler_defs concrete_defs)
  have b: "wproxy user_state = Some pac_wproxy" by (simp add: concrete_defs)
  have c: "find_proxy_for_url pac_wproxy (request_url get_request)
      = (Server ''a'' 1 # [Server ''b'' 2, DIRECT], ''example.com:80'', ''/'')"
    by (simp add: concrete_defs)
  obtain r h' S' tr where run: "do_curl first_down_env user_state get_request = (r, h', S', tr)"
    by (metis prod_cases4)
  have d: "Mcurl_do \<in> set tr"
    using run by (auto simp add: handler_defs concrete_defs str_defs)
  have e: "mcurl_do first_down_env
      \<lparr>url = path get_request, http_method = command get_request, proxy = Some (''a'', 1)\<rparr>
      = Do_failed 503 ''Could not connect to server''"
    by (simp add: concrete_defs)
  from do_curl_first_upstream_only [OF a b c run] d e show ?thesis
    by (auto simp add: run)
qed

subsection \<open>C9: releasing the handle\<close>

text \<open>
  C9: \<^verbatim>\<open>State.mcurl.remove\<close> at the end of every request. The two \<^verbatim>\<open>return\<close>
  statements after \<^verbatim>\<open>send_error\<close> leave \<^verbatim>\<open>do_curl\<close> before line 278: a request whose
  upstream is rejected (401) and a request without credentials (501) return without
  \<^verbatim>\<open>Mcurl_remove\<close>, while the path on which the driver fails, and the path on which
  it succeeds, end with it.
\<close>

theorem do_curl_release_evaluation:
  "do_curl rejecting_env user_state get_request =
     (None,
      get_request\<lparr>proxy_servers := [Server ''a'' 1, Server ''b'' 2, DIRECT],
        curl := Some \<lparr>url = ''http://example.com/'', http_method = ''GET'', proxy = None\<rparr>,
        close_connection := True\<rparr>,
      user_state,
      [Curl_new ''http://example.com/'' ''GET'' ''HTTP/1.1'' (PFloat 20),
       Set_proxy ''a'' 1 None,
       Send_error 401 ''Proxy server authentication failed: a:1''])
   \<and> do_curl linux_env discovered_state get_request =
     (None,
      get_request\<lparr>proxy_servers := [Server ''a'' 1, Server ''b'' 2, DIRECT],
        curl := Some \<lparr>url = ''http://example.com/'', http_method = ''GET'', proxy = Some (''a'', 1)\<rparr>,
        close_connection := True\<rparr>,
      discovered_state,
      [Curl_new ''http://example.com/'' ''GET'' ''HTTP/1.1'' (PFloat 20),
       Set_proxy ''a'' 1 None,
       Send_error 501 ''SSPI not available and no username configured''])
   \<and> last (snd (snd (snd (do_curl first_down_env user_state get_request)))) = Mcurl_remove
   \<and> last (snd (snd (snd (do_curl linux_env user_state get_request)))) = Mcurl_remove"
  by (simp add: handler_defs concrete_defs str_defs)

subsection \<open>Settings: what a pass stores\<close>































lemmas cfg_defs = parse_settings_def cfg_passes_def propagate_def getint_def cfg_init_def
  cfg_int_init_def cfg_float_init_def cfg_str_init_def cfg_value_def config_set_def call_proc_def
  callbacks_def on_str_def set_pac_def set_listen_def set_allow_def set_noproxy_def
  set_useragent_def set_username_def set_auth_def set_debug_def get_logfile_def set_idle_def
  set_socktimeout_def set_proxyreload_def pprint_def str_val_def defaults_def
  proxy_str_keys_def proxy_int_keys_def settings_int_keys_def settings_float_keys_def
  py_int_def py_nat_def digit_val_def py_strip_def is_space_def str_int_def str_nat.simps
  digit_char_def


subsection \<open>C2: precedence of the sources\<close>





subsection \<open>C8: a value of the INI file that does not parse\<close>

text \<open>
  C8: a value that fails to parse keeps the built-in default. With \<^verbatim>\<open>port = abc\<close> in
  the file, \<^verbatim>\<open>cfg_int_init\<close> prints the error and then stores \<^verbatim>\<open>abc\<close>, not the
  default 3128; \<^verbatim>\<open>State.config.getint("proxy", "port")\<close> raises on it afterwards. With
  \<^verbatim>\<open>socktimeout = abc\<close> the string reaches \<^verbatim>\<open>socket.setdefaulttimeout\<close> and the
  parse ends with \<^verbatim>\<open>TypeError\<close>, before the keys after it are set.
\<close>

theorem cfg_init_invalid_evaluation:
  "(case cfg_int_init plain_cfg_env ''proxy'' ''port'' ''3128'' None False ini_port_abc of
      Inl e \<Rightarrow> False
    | Inr S' \<Rightarrow> config S' (''proxy'', ''port'') = Some ''abc''
                 \<and> printed S' = [''Invalid integer value for proxy:port'']
                 \<and> getint ''proxy'' ''port'' S' = Inl ValueError)
   \<and> (case parse_settings plain_cfg_env [] [] ini_port_abc of
        Inl e \<Rightarrow> False
      | Inr S' \<Rightarrow> config S' (''proxy'', ''port'') = Some ''abc''
                   \<and> printed S' = [''Invalid integer value for proxy:port''])
   \<and> parse_settings plain_cfg_env [] [] ini_socktimeout_abc = Inl TypeError
   \<and> map_of defaults ''port'' = Some ''3128''"
  by (simp add: cfg_defs plain_cfg_env_def ini_port_abc_def ini_socktimeout_abc_def
      State_init_def Let_def)

subsection \<open>C10: \<^verbatim>\<open>--proxy\<close> and \<^verbatim>\<open>--server\<close>\<close>




















end
